theory Spec2Isabelle
  imports Complex_Main
begin

section \<open>Python strings\<close>

text \<open>
  A Python \<open>str\<close> is modelled as a \<^typ>\<open>string\<close> holding one \<^typ>\<open>char\<close> per code
  point, so the model covers the strings over the code points 0..255 (Latin-1).
  On that range \<open>str.isspace\<close>, \<open>str.isdigit\<close> and \<open>str.isdecimal\<close> are the three
  predicates below: the whitespace of \<open>strip()\<close> has the twelve code points
  9..13, 28..32, 133 and 160; \<open>isdigit\<close> accepts the superscripts 178, 179 and 185
  beside \<open>0\<close>..\<open>9\<close>, which \<open>isdecimal\<close> and \<open>int()\<close> do not.
\<close>

definition isspace :: "char \<Rightarrow> bool" where
  "isspace c =
     (let n = (of_char c :: nat)
      in (9 \<le> n \<and> n \<le> 13) \<or> (28 \<le> n \<and> n \<le> 32) \<or> n = 133 \<or> n = 160)"

definition isdecimal :: "char \<Rightarrow> bool" where
  "isdecimal c = (let n = (of_char c :: nat) in 48 \<le> n \<and> n \<le> 57)"

definition isdigit :: "char \<Rightarrow> bool" where
  "isdigit c =
     (let n = (of_char c :: nat)
      in (48 \<le> n \<and> n \<le> 57) \<or> n = 178 \<or> n = 179 \<or> n = 185)"

text \<open>\<open>s.isdigit()\<close>: false on the empty string.\<close>

definition str_isdigit :: "string \<Rightarrow> bool" where
  "str_isdigit s = (s \<noteq> [] \<and> list_all isdigit s)"

text \<open>\<open>s.strip()\<close>\<close>

definition strip :: "string \<Rightarrow> string" where
  "strip s = rev (dropWhile isspace (rev (dropWhile isspace s)))"

text \<open>
  \<open>s.split(c, 1)\<close> for a string that contains \<open>c\<close>: the part before the first \<open>c\<close>
  and the part after it. The source unpacks the result into two names only under
  the guard \<open>c in s\<close>.
\<close>

definition split1 :: "char \<Rightarrow> string \<Rightarrow> string \<times> string" where
  "split1 c s = (takeWhile (\<lambda>x. x \<noteq> c) s, drop 1 (dropWhile (\<lambda>x. x \<noteq> c) s))"

text \<open>\<open>s.split(c)\<close>: every occurrence of \<open>c\<close> separates; the result is never empty.\<close>

fun split_on :: "char \<Rightarrow> string \<Rightarrow> string list" where
  "split_on c [] = [[]]"
| "split_on c (x # xs) =
     (if x = c then [] # split_on c xs
      else (case split_on c xs of
              [] \<Rightarrow> [[x]]
            | p # ps \<Rightarrow> (x # p) # ps))"

text \<open>The value of a string of decimal digits, most significant digit first.\<close>

definition decimal_value :: "string \<Rightarrow> int" where
  "decimal_value s = foldl (\<lambda>a c. 10 * a + (int (of_char c) - 48)) 0 s"

text \<open>\<open>str(n)\<close> for an integer.\<close>

fun str_nat :: "nat \<Rightarrow> string" where
  "str_nat n =
     (if n < 10 then [''0123456789'' ! n]
      else str_nat (n div 10) @ [''0123456789'' ! (n mod 10)])"

declare str_nat.simps [simp del]

definition str_int :: "int \<Rightarrow> string" where
  "str_int i = (if i < 0 then CHR ''-'' # str_nat (nat (- i)) else str_nat (nat i))"

text \<open>Truthiness of an optional string: \<open>None\<close> and \<open>""\<close> are falsy.\<close>

fun truthy :: "string option \<Rightarrow> bool" where
  "truthy None = False"
| "truthy (Some s) = (s \<noteq> [])"

section \<open>Exceptions\<close>

text \<open>
  The \<open>ValueError\<close>s of the program: the two raised by \<open>raise ValueError(...)\<close>, and the
  one \<open>int()\<close> raises on a string that \<open>isdigit\<close> accepts and that is not decimal.
\<close>

datatype value_error =
    NoVersionField
  | InvalidVersionFormat string
  | InvalidLiteral string

text \<open>
  Everything \<open>_refresh_cache\<close> can catch: the three \<open>RuntimeError\<close>s of the fetch, a
  \<open>ValueError\<close>, or an exception raised inside a library call (\<open>requests\<close>, the JSON
  decoder, \<open>base64\<close>, \<open>yaml\<close>), kept as its \<open>str()\<close>.
\<close>

datatype exn =
    MissingConfiguration
  | GitHubApiError int string
  | UnexpectedContents
  | ValueError value_error
  | LibraryException string

definition quote :: string where
  "quote = [CHR 0x27]"

fun str_value_error :: "value_error \<Rightarrow> string" where
  "str_value_error NoVersionField =
     ''No '' @ quote @ ''version'' @ quote @ '' field found in pubspec.yaml''"
| "str_value_error (InvalidVersionFormat v) =
     ''Invalid version format: '' @ v @ ''. Expected e.g. 1.16.1+3''"
| "str_value_error (InvalidLiteral s) =
     ''invalid literal for int() with base 10: '' @ quote @ s @ quote"

fun str_exn :: "exn \<Rightarrow> string" where
  "str_exn MissingConfiguration = ''Missing GitHub configuration (owner/repo/path).''"
| "str_exn (GitHubApiError status body) =
     ''GitHub API error: '' @ str_int status @ '' - '' @ body"
| "str_exn UnexpectedContents =
     ''Unexpected GitHub contents response (missing base64 content).''"
| "str_exn (ValueError e) = str_value_error e"
| "str_exn (LibraryException m) = m"

text \<open>
  \<open>int(s)\<close> as the source calls it, on a string for which \<open>s.isdigit()\<close> holds: the
  value when every character is decimal, a \<open>ValueError\<close> otherwise. Python's integers
  are unbounded; the interpreter's optional limit on the number of digits of a
  conversion is a setting of the runtime and is not part of the model.
\<close>

definition py_int :: "string \<Rightarrow> value_error + int" where
  "py_int s = (if list_all isdecimal s then Inr (decimal_value s) else Inl (InvalidLiteral s))"

section \<open>The version comparator of \<open>/check\<close>\<close>

type_synonym version_tuple = "int \<times> int \<times> int \<times> int"

text \<open>
  \<open>parse_version\<close>, the function nested in \<open>check\<close>. The tuple assignment
  \<open>int(parts[0]), int(parts[1]), int(parts[2])\<close> evaluates left to right, after the
  build number.
\<close>

definition parse_version :: "string \<Rightarrow> value_error + version_tuple" where
  "parse_version v0 =
     (let v = strip v0;
          (version_part, build_raised) =
            (if CHR ''+'' \<in> set v then
               (let (version_part, build_part) = split1 CHR ''+'' v;
                    build_part = strip build_part
                in (version_part,
                    if str_isdigit build_part then py_int build_part else Inr 0))
             else (v, Inr 0))
      in case build_raised of
           Inl e \<Rightarrow> Inl e
         | Inr build \<Rightarrow>
             (let parts = map strip (split_on CHR ''.'' version_part)
              in if length parts \<noteq> 3 \<or> \<not> list_all str_isdigit parts
                 then Inl (InvalidVersionFormat v)
                 else (case py_int (parts ! 0) of
                         Inl e \<Rightarrow> Inl e
                       | Inr major \<Rightarrow>
                           (case py_int (parts ! 1) of
                              Inl e \<Rightarrow> Inl e
                            | Inr minor \<Rightarrow>
                                (case py_int (parts ! 2) of
                                   Inl e \<Rightarrow> Inl e
                                 | Inr patch \<Rightarrow> Inr (major, minor, patch, build))))))"

text \<open>
  The comparison written out in \<open>check\<close>. Python compares two tuples at their first
  differing position, and by length when there is none; \<open>lat[:3]\<close> is the slice of
  the first three items.
\<close>

fun seq_lt :: "int list \<Rightarrow> int list \<Rightarrow> bool" where
  "seq_lt [] [] = False"
| "seq_lt [] (y # ys) = True"
| "seq_lt (x # xs) [] = False"
| "seq_lt (x # xs) (y # ys) = (if x = y then seq_lt xs ys else x < y)"

definition seq_gt :: "int list \<Rightarrow> int list \<Rightarrow> bool" where
  "seq_gt xs ys = seq_lt ys xs"

fun items :: "version_tuple \<Rightarrow> int list" where
  "items (major, minor, patch, build) = [major, minor, patch, build]"

definition update_available :: "version_tuple \<Rightarrow> version_tuple \<Rightarrow> bool" where
  "update_available lat cur =
     (if seq_gt (take 3 (items lat)) (take 3 (items cur)) then True
      else if seq_lt (take 3 (items lat)) (take 3 (items cur)) then False
      else items lat ! 3 > items cur ! 3)"

section \<open>The comparator as the specification words it\<close>





text \<open>
  The order of the specification: major, minor and patch in turn, then the build
  number.
\<close>

datatype ordering = Less | Equal | Greater

fun spec_compare :: "version_tuple \<Rightarrow> version_tuple \<Rightarrow> ordering" where
  "spec_compare (major, minor, patch, build) (major', minor', patch', build') =
     (if major \<noteq> major' then (if major < major' then Less else Greater)
      else if minor \<noteq> minor' then (if minor < minor' then Less else Greater)
      else if patch \<noteq> patch' then (if patch < patch' then Less else Greater)
      else if build < build' then Less
      else if build' < build then Greater
      else Equal)"

section \<open>Configuration, cache and the outside world\<close>

text \<open>The module constants read from the environment, already stripped.\<close>

record config =
  GITHUB_OWNER :: string
  GITHUB_REPO :: string
  GITHUB_BRANCH :: string
  GITHUB_PUBSPEC_PATH :: string
  GITHUB_TOKEN :: string
  CACHE_TTL_SECONDS :: int

text \<open>
  The dictionary \<open>_cache\<close>. Times are real numbers: \<open>time.time()\<close> and the sums built
  from it are taken as exact.
\<close>

record cache =
  expires_at :: real
  version :: "string option"
  build :: "int option"
  raw_version :: "string option"
  source :: "string option"
  etag :: "string option"
  last_checked_at :: "int option"
  error :: "string option"

definition initial_cache :: cache where
  "initial_cache =
     \<lparr>expires_at = 0, version = None, build = None, raw_version = None, source = None,
      etag = None, last_checked_at = None, error = None\<rparr>"

text \<open>The arguments of one \<open>requests.get\<close> call.\<close>

record request =
  url :: string
  headers :: "(string \<times> string) list"
  params :: "(string \<times> string) list"
  timeout :: nat

text \<open>
  The JSON body of a response as \<open>r.json()\<close> returns it: an object, of which the
  program reads the keys \<open>content\<close> and \<open>encoding\<close>, or a value without \<open>get\<close>, for which
  the attribute access raises with the message kept here.
\<close>

datatype payload =
    PayloadObject (content: "string option") (encoding: "string option")
  | PayloadOther string

text \<open>
  A response: \<open>r.status_code\<close>, \<open>r.text\<close>, \<open>r.json()\<close> (\<open>Inl\<close> when decoding raises) and
  \<open>r.headers.get("ETag")\<close>.
\<close>

record response =
  status_code :: int
  resp_text :: string
  resp_json :: "string + payload"
  resp_etag :: "string option"

text \<open>
  What \<open>yaml.safe_load\<close> returns: a falsy value (replaced by \<open>{}\<close>), a mapping, given by
  the \<open>str()\<close> of the value at each key, or another value, for which \<open>data.get\<close> raises.
\<close>

datatype yaml_doc =
    YamlFalsy
  | YamlMapping "string \<Rightarrow> string option"
  | YamlOther string

text \<open>
  The library calls whose results the program does not determine: \<open>requests.get\<close>,
  \<open>base64.b64decode\<close> followed by the UTF-8 decoding, and \<open>yaml.safe_load\<close>. \<open>Inl\<close> is
  the \<open>str()\<close> of the exception raised.
\<close>

record runtime =
  requests_get :: "request \<Rightarrow> string + response"
  b64decode :: "string \<Rightarrow> string + string"
  safe_load :: "string \<Rightarrow> string + yaml_doc"

section \<open>The manifest fetcher\<close>

definition github_headers :: "config \<Rightarrow> string option \<Rightarrow> (string \<times> string) list" where
  "github_headers cfg etag_opt =
     [(''Accept'', ''application/vnd.github+json''), (''User-Agent'', ''version-check-server'')]
     @ (if GITHUB_TOKEN cfg \<noteq> [] then [(''Authorization'', ''Bearer '' @ GITHUB_TOKEN cfg)] else [])
     @ (case etag_opt of
          None \<Rightarrow> []
        | Some e \<Rightarrow> if e \<noteq> [] then [(''If-None-Match'', e)] else [])"

definition repo_url :: "config \<Rightarrow> string" where
  "repo_url cfg =
     ''https://api.github.com/repos/'' @ GITHUB_OWNER cfg @ ''/'' @ GITHUB_REPO cfg
     @ ''/contents/'' @ GITHUB_PUBSPEC_PATH cfg"

text \<open>
  \<open>_parse_pubspec\<close>: the version string of the manifest, its part before the first
  \<open>+\<close>, and the build number when the part after it is a number.
\<close>

definition parse_pubspec :: "runtime \<Rightarrow> string \<Rightarrow> exn + (string \<times> int option \<times> string)" where
  "parse_pubspec rt pubspec_text =
     (case safe_load rt pubspec_text of
        Inl m \<Rightarrow> Inl (LibraryException m)
      | Inr (YamlOther m) \<Rightarrow> Inl (LibraryException m)
      | Inr doc \<Rightarrow>
          (let field = (case doc of
                          YamlMapping data \<Rightarrow> (case data ''version'' of None \<Rightarrow> [] | Some s \<Rightarrow> s)
                        | _ \<Rightarrow> []);
               raw = strip field
           in if raw = [] then Inl (ValueError NoVersionField)
              else if CHR ''+'' \<in> set raw then
                (let (v, b) = split1 CHR ''+'' raw;
                     v = strip v;
                     b = strip b
                 in if str_isdigit b
                    then (case py_int b of
                            Inl e \<Rightarrow> Inl (ValueError e)
                          | Inr n \<Rightarrow> Inr (v, Some n, raw))
                    else Inr (v, None, raw))
              else Inr (raw, None, raw)))"

text \<open>
  The dictionary \<open>_fetch_pubspec_from_github\<close> returns: \<open>unchanged\<close> is true with the
  etag that was sent and no text, or false with the new etag and the manifest text.
\<close>

datatype fetched =
    Unchanged "string option"
  | Changed "string option" string

text \<open>
  The request \<open>_fetch_pubspec_from_github\<close> sends: the contents URL, the headers with
  the cached etag as \<open>If-None-Match\<close>, the branch as \<open>ref\<close>, and a timeout of 15 seconds.
\<close>

definition github_request :: "config \<Rightarrow> cache \<Rightarrow> request" where
  "github_request cfg c =
     \<lparr>url = repo_url cfg,
      headers = github_headers cfg (etag c),
      params = (if GITHUB_BRANCH cfg \<noteq> [] then [(''ref'', GITHUB_BRANCH cfg)] else []),
      timeout = 15\<rparr>"

text \<open>
  \<open>_fetch_pubspec_from_github\<close>, with the list of the requests it sent: none when the
  configuration is missing, one otherwise.
\<close>

definition fetch_pubspec_from_github ::
    "runtime \<Rightarrow> config \<Rightarrow> cache \<Rightarrow> (exn + fetched) \<times> request list" where
  "fetch_pubspec_from_github rt cfg c =
     (if \<not> (GITHUB_OWNER cfg \<noteq> [] \<and> GITHUB_REPO cfg \<noteq> [] \<and> GITHUB_PUBSPEC_PATH cfg \<noteq> [])
      then (Inl MissingConfiguration, [])
      else
        (let req = github_request cfg c
         in (case requests_get rt req of
               Inl m \<Rightarrow> Inl (LibraryException m)
             | Inr r \<Rightarrow>
                 if status_code r = 304 \<and> truthy (version c) then Inr (Unchanged (etag c))
                 else if status_code r \<noteq> 200
                 then Inl (GitHubApiError (status_code r) (take 300 (resp_text r)))
                 else (case resp_json r of
                         Inl m \<Rightarrow> Inl (LibraryException m)
                       | Inr (PayloadOther m) \<Rightarrow> Inl (LibraryException m)
                       | Inr (PayloadObject content_b64 enc) \<Rightarrow>
                           if enc \<noteq> Some ''base64'' \<or> \<not> truthy content_b64
                           then Inl UnexpectedContents
                           else (case b64decode rt (case content_b64 of None \<Rightarrow> [] | Some t \<Rightarrow> t) of
                                   Inl m \<Rightarrow> Inl (LibraryException m)
                                 | Inr pubspec_text \<Rightarrow> Inr (Changed (resp_etag r) pubspec_text))),
             [req])))"

section \<open>The version cache\<close>

text \<open>\<open>int(x)\<close> for a float: truncation towards zero.\<close>

definition int_of_float :: "real \<Rightarrow> int" where
  "int_of_float x = (if 0 \<le> x then \<lfloor>x\<rfloor> else \<lceil>x\<rceil>)"

text \<open>The \<open>except\<close> branch of \<open>_refresh_cache\<close>.\<close>

definition record_failure :: "config \<Rightarrow> real \<Rightarrow> exn \<Rightarrow> cache \<Rightarrow> cache" where
  "record_failure cfg now e c =
     c\<lparr>error := Some (str_exn e),
       last_checked_at := Some (int_of_float now),
       expires_at := now + real_of_int (min (CACHE_TTL_SECONDS cfg) 30)\<rparr>"

text \<open>\<open>_refresh_cache\<close>: the cache after the call, and the requests sent.\<close>

definition refresh_cache ::
    "runtime \<Rightarrow> config \<Rightarrow> real \<Rightarrow> bool \<Rightarrow> cache \<Rightarrow> cache \<times> request list" where
  "refresh_cache rt cfg now force c =
     (if \<not> force \<and> now < expires_at c \<and> truthy (version c) then (c, [])
      else
        (case fetch_pubspec_from_github rt cfg c of
           (Inl e, sent) \<Rightarrow> (record_failure cfg now e c, sent)
         | (Inr got, sent) \<Rightarrow>
             (let c1 = c\<lparr>last_checked_at := Some (int_of_float now), error := None\<rparr>
              in case got of
                   Unchanged _ \<Rightarrow>
                     (c1\<lparr>source := Some ''github(etag-cache)'',
                         expires_at := now + real_of_int (CACHE_TTL_SECONDS cfg)\<rparr>, sent)
                 | Changed new_etag pubspec_text \<Rightarrow>
                     (case parse_pubspec rt pubspec_text of
                        Inl e \<Rightarrow> (record_failure cfg now e c1, sent)
                      | Inr (v, bld, raw) \<Rightarrow>
                          (c1\<lparr>version := Some v, build := bld, raw_version := Some raw,
                              etag := new_etag, source := Some ''github'',
                              expires_at := now + real_of_int (CACHE_TTL_SECONDS cfg)\<rparr>, sent)))))"

section \<open>The HTTP handlers\<close>

datatype json = JNull | JBool bool | JInt int | JStr string | JObj "(string \<times> json) list"

fun json_str :: "string option \<Rightarrow> json" where
  "json_str None = JNull"
| "json_str (Some s) = JStr s"

fun json_int :: "int option \<Rightarrow> json" where
  "json_int None = JNull"
| "json_int (Some i) = JInt i"

text \<open>\<open>_cache.get("error") or "unknown"\<close>\<close>

definition error_or_unknown :: "cache \<Rightarrow> string" where
  "error_or_unknown c =
     (case error c of None \<Rightarrow> ''unknown'' | Some m \<Rightarrow> if m = [] then ''unknown'' else m)"

text \<open>
  The handler of \<open>/version\<close>, given the query parameter \<open>force\<close> when present: the body
  and status of the answer, the cache afterwards and the requests sent.
\<close>

definition version_route ::
    "runtime \<Rightarrow> config \<Rightarrow> real \<Rightarrow> string option \<Rightarrow> cache \<Rightarrow> (json \<times> int) \<times> cache \<times> request list" where
  "version_route rt cfg now force_arg c =
     (let force = ((case force_arg of None \<Rightarrow> ''0'' | Some a \<Rightarrow> a) = ''1'');
          (c', sent) = refresh_cache rt cfg now force c
      in if \<not> truthy (version c')
         then ((JObj [(''ok'', JBool False),
                      (''error'', JStr (error_or_unknown c')),
                      (''last_checked_at'', json_int (last_checked_at c'))], 502), c', sent)
         else ((JObj [(''ok'', JBool True),
                      (''version'', json_str (version c')),
                      (''build'', json_int (build c')),
                      (''raw'', json_str (raw_version c')),
                      (''source'', json_str (source c')),
                      (''last_checked_at'', json_int (last_checked_at c')),
                      (''cache_ttl_seconds'', JInt (CACHE_TTL_SECONDS cfg)),
                      (''error'', json_str (error c'))], 200), c', sent))"

text \<open>
  The handler of \<open>/check\<close>, given the query parameter \<open>current\<close> when present. Both
  calls of \<open>parse_version\<close> stand in the one \<open>try\<close> whose \<open>except ValueError\<close> answers 400.
\<close>

definition check_route ::
    "runtime \<Rightarrow> config \<Rightarrow> real \<Rightarrow> string option \<Rightarrow> cache \<Rightarrow> (json \<times> int) \<times> cache \<times> request list" where
  "check_route rt cfg now current_arg c =
     (let current = strip (case current_arg of None \<Rightarrow> [] | Some a \<Rightarrow> a)
      in if current = []
         then ((JObj [(''ok'', JBool False),
                      (''error'', JStr (''Missing '' @ quote @ ''current'' @ quote @ '' query param''))],
                400), c, [])
         else
           (let (c', sent) = refresh_cache rt cfg now False c
            in case raw_version c' of
                 None \<Rightarrow>
                   ((JObj [(''ok'', JBool False), (''error'', JStr (error_or_unknown c'))], 502), c', sent)
               | Some latest_raw \<Rightarrow>
                   if latest_raw = []
                   then ((JObj [(''ok'', JBool False), (''error'', JStr (error_or_unknown c'))], 502),
                         c', sent)
                   else
                     (case parse_version current of
                        Inl e \<Rightarrow>
                          ((JObj [(''ok'', JBool False), (''error'', JStr (str_value_error e))], 400),
                           c', sent)
                      | Inr cur \<Rightarrow>
                          (case parse_version latest_raw of
                             Inl e \<Rightarrow>
                               ((JObj [(''ok'', JBool False), (''error'', JStr (str_value_error e))], 400),
                                c', sent)
                           | Inr lat \<Rightarrow>
                               ((JObj [(''ok'', JBool True),
                                       (''update_available'', JBool (update_available lat cur)),
                                       (''current'', JStr current),
                                       (''latest'', JStr latest_raw)], 200), c', sent)))))"

section \<open>Example environments\<close>

text \<open>A configuration with the default time-to-live of 60 seconds.\<close>

definition example_config :: config where
  "example_config =
     \<lparr>GITHUB_OWNER = ''acme'', GITHUB_REPO = ''app'', GITHUB_BRANCH = ''main'',
      GITHUB_PUBSPEC_PATH = ''pubspec.yaml'', GITHUB_TOKEN = [], CACHE_TTL_SECONDS = 60\<rparr>"

text \<open>An upstream that answers 200 with a manifest whose version field is \<open>ver\<close>.\<close>

definition serving :: "string \<Rightarrow> runtime" where
  "serving ver =
     \<lparr>requests_get = (\<lambda>req. Inr \<lparr>status_code = 200, resp_text = ''{}'',
                                    resp_json = Inr (PayloadObject (Some ''dmVyc2lvbg=='') (Some ''base64'')),
                                    resp_etag = Some ''W/2''\<rparr>),
      b64decode = (\<lambda>t. Inr (''version: '' @ ver)),
      safe_load = (\<lambda>t. Inr (YamlMapping (\<lambda>k. if k = ''version'' then Some ver else None)))\<rparr>"

text \<open>An upstream that answers every request with the given status and an empty body.\<close>

definition answering :: "int \<Rightarrow> runtime" where
  "answering status =
     \<lparr>requests_get = (\<lambda>req. Inr \<lparr>status_code = status, resp_text = [],
                                    resp_json = Inl ''Expecting value'', resp_etag = None\<rparr>),
      b64decode = (\<lambda>t. Inl ''Incorrect padding''),
      safe_load = (\<lambda>t. Inr YamlFalsy)\<rparr>"

text \<open>The cache after a successful fetch of version \<open>1.16.1+3\<close> at time 1000.\<close>

definition populated_cache :: cache where
  "populated_cache =
     \<lparr>expires_at = 1060, version = Some ''1.16.1'', build = Some 3,
      raw_version = Some ''1.16.1+3'', source = Some ''github'', etag = Some ''W/1'',
      last_checked_at = Some 1000, error = None\<rparr>"

section \<open>Facts about the string operations\<close>










section \<open>The parser of \<open>/check\<close> against the specification\<close>



text \<open>
  Where \<open>isdigit\<close> and \<open>int()\<close> part: a superscript two as build tag passes the
  \<open>isdigit\<close> test and makes \<open>int()\<close> raise, so the parse fails instead of taking 0.
\<close>

lemma parse_version_superscript_build:
  "parse_version (''1.2.3+'' @ [CHR 0xB2]) = Inl (InvalidLiteral [CHR 0xB2])"
  by code_simp




section \<open>The order of \<open>/check\<close>\<close>

lemma update_available_greater: "update_available lat cur = (spec_compare lat cur = Greater)"
proof -
  obtain a b c d where lat: "lat = (a, b, c, d)" by (cases lat) auto
  obtain a' b' c' d' where cur: "cur = (a', b', c', d')" by (cases cur) auto
  show ?thesis
    unfolding lat cur by (auto simp: update_available_def seq_gt_def)
qed

text \<open>\<open>spec_compare\<close> is a total order on the tuples: the facts that make it one.\<close>

lemma spec_compare_equal: "(spec_compare a b = Equal) = (a = b)"
  by (cases a; cases b) auto

lemma spec_compare_flip: "(spec_compare a b = Greater) = (spec_compare b a = Less)"
  by (cases a; cases b) auto

lemma spec_compare_trans:
  "spec_compare a b = Less \<Longrightarrow> spec_compare b c = Less \<Longrightarrow> spec_compare a c = Less"
  by (cases a; cases b; cases c) (auto split: if_splits)

lemma parse_version_empty: "parse_version [] = Inl (InvalidVersionFormat [])"
  by code_simp

text \<open>
  C3: whenever \<open>/check\<close> parses both the caller's version and the cached latest one, it
  answers 200 with \<open>update_available\<close> true exactly when the latest tuple is greater
  than the current one in the order of the specification (major, minor, patch in
  turn, then build); \<open>1.2.3+5\<close> is less than \<open>1.2.3+10\<close>, and \<open>2.0.0\<close> is greater
  than \<open>1.9.9+999\<close>.
\<close>

theorem check_update_available:
  assumes "parse_version (strip a) = Inr cur"
    and "refresh_cache rt cfg now False c = (c', sent)"
    and "raw_version c' = Some latest_raw"
    and "parse_version latest_raw = Inr lat"
  shows "check_route rt cfg now (Some a) c =
           ((JObj [(''ok'', JBool True),
                   (''update_available'', JBool (spec_compare lat cur = Greater)),
                   (''current'', JStr (strip a)),
                   (''latest'', JStr latest_raw)], 200), c', sent)
         \<and> update_available lat cur = (spec_compare lat cur = Greater)
         \<and> parse_version ''1.2.3+5'' = Inr (1, 2, 3, 5)
         \<and> parse_version ''1.2.3+10'' = Inr (1, 2, 3, 10)
         \<and> spec_compare (1, 2, 3, 5) (1, 2, 3, 10) = Less
         \<and> parse_version ''2.0.0'' = Inr (2, 0, 0, 0)
         \<and> parse_version ''1.9.9+999'' = Inr (1, 9, 9, 999)
         \<and> spec_compare (2, 0, 0, 0) (1, 9, 9, 999) = Greater"
proof -
  have "strip a \<noteq> []" using assms(1) parse_version_empty by auto
  moreover have "latest_raw \<noteq> []" using assms(4) parse_version_empty by auto
  ultimately have "check_route rt cfg now (Some a) c =
           ((JObj [(''ok'', JBool True),
                   (''update_available'', JBool (spec_compare lat cur = Greater)),
                   (''current'', JStr (strip a)),
                   (''latest'', JStr latest_raw)], 200), c', sent)"
    using assms by (simp add: check_route_def update_available_greater)
  moreover have "parse_version ''1.2.3+5'' = Inr (1, 2, 3, 5)" by code_simp
  moreover have "parse_version ''1.2.3+10'' = Inr (1, 2, 3, 10)" by code_simp
  moreover have "parse_version ''2.0.0'' = Inr (2, 0, 0, 0)" by code_simp
  moreover have "parse_version ''1.9.9+999'' = Inr (1, 9, 9, 999)" by code_simp
  ultimately show ?thesis by (simp add: update_available_greater)
qed

theorem check_update_available_witness:
  "check_route (answering 500) example_config 1000 (Some ''1.16.0'') populated_cache =
     ((JObj [(''ok'', JBool True),
             (''update_available'', JBool True),
             (''current'', JStr ''1.16.0''),
             (''latest'', JStr ''1.16.1+3'')], 200), populated_cache, [])"
proof -
  have s: "strip ''1.16.0'' = ''1.16.0''" by code_simp
  have h1: "parse_version (strip ''1.16.0'') = Inr (1, 16, 0, 0)" by code_simp
  have h2: "refresh_cache (answering 500) example_config 1000 False populated_cache
              = (populated_cache, [])"
    by (simp add: refresh_cache_def populated_cache_def)
  have h3: "raw_version populated_cache = Some ''1.16.1+3''"
    by (simp add: populated_cache_def)
  have h4: "parse_version ''1.16.1+3'' = Inr (1, 16, 1, 3)" by code_simp
  from check_update_available [OF h1 h2 h3 h4] s show ?thesis by simp
qed

section \<open>The fetch\<close>

lemma fetch_sent:
  "snd (fetch_pubspec_from_github rt cfg c) =
     (if GITHUB_OWNER cfg \<noteq> [] \<and> GITHUB_REPO cfg \<noteq> [] \<and> GITHUB_PUBSPEC_PATH cfg \<noteq> []
      then [github_request cfg c] else [])"
  by (simp add: fetch_pubspec_from_github_def Let_def)

text \<open>
  C8: given the configuration and an answer of the upstream, the fetch returns an
  unchanged result exactly when the answer is a 304 and a version is cached, then
  with the etag it sent; a 304 with no version cached fails with the error of the
  non-200 branch, which carries the status code 304 and the first 300 characters of
  the body.
\<close>

theorem fetch_not_modified:
  assumes "GITHUB_OWNER cfg \<noteq> [] \<and> GITHUB_REPO cfg \<noteq> [] \<and> GITHUB_PUBSPEC_PATH cfg \<noteq> []"
    and "requests_get rt (github_request cfg c) = Inr r"
  shows "((\<exists>e. fst (fetch_pubspec_from_github rt cfg c) = Inr (Unchanged e))
            = (status_code r = 304 \<and> truthy (version c)))
         \<and> (status_code r = 304 \<and> truthy (version c) \<longrightarrow>
              fetch_pubspec_from_github rt cfg c = (Inr (Unchanged (etag c)), [github_request cfg c]))
         \<and> (status_code r = 304 \<and> \<not> truthy (version c) \<longrightarrow>
              fetch_pubspec_from_github rt cfg c
                = (Inl (GitHubApiError 304 (take 300 (resp_text r))), [github_request cfg c]))"
  using assms
  by (auto simp: fetch_pubspec_from_github_def Let_def split: sum.splits payload.splits)

theorem fetch_not_modified_witness:
  "fetch_pubspec_from_github (answering 304) example_config initial_cache
     = (Inl (GitHubApiError 304 []), [github_request example_config initial_cache])
   \<and> str_exn (GitHubApiError 304 []) = ''GitHub API error: 304 - ''
   \<and> fetch_pubspec_from_github (answering 304) example_config populated_cache
     = (Inr (Unchanged (Some ''W/1'')), [github_request example_config populated_cache])"
proof -
  let ?r = "\<lparr>status_code = 304, resp_text = [], resp_json = Inl ''Expecting value'',
             resp_etag = None\<rparr>"
  have cfg: "GITHUB_OWNER example_config \<noteq> [] \<and> GITHUB_REPO example_config \<noteq> []
             \<and> GITHUB_PUBSPEC_PATH example_config \<noteq> []"
    by (simp add: example_config_def)
  have r0: "requests_get (answering 304) (github_request example_config initial_cache) = Inr ?r"
    by (simp add: answering_def)
  have r1: "requests_get (answering 304) (github_request example_config populated_cache) = Inr ?r"
    by (simp add: answering_def)
  have m: "str_exn (GitHubApiError 304 []) = ''GitHub API error: 304 - ''" by code_simp
  from fetch_not_modified [OF cfg r0] fetch_not_modified [OF cfg r1] m show ?thesis
    by (simp add: initial_cache_def populated_cache_def)
qed

section \<open>The refresh\<close>

lemma refresh_sent_le: "length (snd (refresh_cache rt cfg now force c)) \<le> 1"
proof -
  obtain res sent where f: "fetch_pubspec_from_github rt cfg c = (res, sent)"
    by (cases "fetch_pubspec_from_github rt cfg c") auto
  have "length sent \<le> 1" using fetch_sent [of rt cfg c] f by (simp split: if_splits)
  then show ?thesis
    using f by (auto simp: refresh_cache_def Let_def split: sum.splits fetched.splits prod.splits)
qed

lemma refresh_failure_cache:
  assumes "force \<or> \<not> now < expires_at c \<or> \<not> truthy (version c)"
    and "fst (fetch_pubspec_from_github rt cfg c) = Inl e
         \<or> (\<exists>new_etag pubspec_text.
               fst (fetch_pubspec_from_github rt cfg c) = Inr (Changed new_etag pubspec_text)
               \<and> parse_pubspec rt pubspec_text = Inl e)"
  shows "fst (refresh_cache rt cfg now force c) =
           c\<lparr>error := Some (str_exn e),
             last_checked_at := Some (int_of_float now),
             expires_at := now + real_of_int (min (CACHE_TTL_SECONDS cfg) 30)\<rparr>"
proof -
  obtain res sent where f: "fetch_pubspec_from_github rt cfg c = (res, sent)"
    by (cases "fetch_pubspec_from_github rt cfg c") auto
  from assms(2) f consider (fetch) "res = Inl e"
    | (parse) new_etag pubspec_text where "res = Inr (Changed new_etag pubspec_text)"
        "parse_pubspec rt pubspec_text = Inl e" by auto
  then show ?thesis
  proof cases
    case fetch
    with assms(1) f show ?thesis
      by (auto simp: refresh_cache_def record_failure_def)
  next
    case parse
    with assms(1) f show ?thesis
      by (auto simp: refresh_cache_def record_failure_def Let_def)
  qed
qed

text \<open>
  C4: for every cache and every refresh that reaches the fetch and fails, in the
  fetch or in the parse of the manifest it returned, the cache afterwards has the
  description of the failure as its error, the time of the call as
  \<open>last_checked_at\<close>, that time plus the smaller of the time-to-live and 30 as
  \<open>expires_at\<close>, and the version, build and raw version it had before.
\<close>

theorem refresh_failure_keeps_version:
  assumes "force \<or> \<not> now < expires_at c \<or> \<not> truthy (version c)"
    and "fst (fetch_pubspec_from_github rt cfg c) = Inl e
         \<or> (\<exists>new_etag pubspec_text.
               fst (fetch_pubspec_from_github rt cfg c) = Inr (Changed new_etag pubspec_text)
               \<and> parse_pubspec rt pubspec_text = Inl e)"
  shows "error (fst (refresh_cache rt cfg now force c)) = Some (str_exn e)
         \<and> last_checked_at (fst (refresh_cache rt cfg now force c)) = Some (int_of_float now)
         \<and> expires_at (fst (refresh_cache rt cfg now force c))
             = now + real_of_int (min (CACHE_TTL_SECONDS cfg) 30)
         \<and> version (fst (refresh_cache rt cfg now force c)) = version c
         \<and> build (fst (refresh_cache rt cfg now force c)) = build c
         \<and> raw_version (fst (refresh_cache rt cfg now force c)) = raw_version c"
  by (simp add: refresh_failure_cache [OF assms])

theorem refresh_failure_keeps_version_witness:
  "error (fst (refresh_cache (answering 500) example_config 2000 False populated_cache))
     = Some ''GitHub API error: 500 - ''
   \<and> last_checked_at (fst (refresh_cache (answering 500) example_config 2000 False populated_cache))
     = Some 2000
   \<and> expires_at (fst (refresh_cache (answering 500) example_config 2000 False populated_cache))
     = 2030
   \<and> version (fst (refresh_cache (answering 500) example_config 2000 False populated_cache))
     = Some ''1.16.1''
   \<and> build (fst (refresh_cache (answering 500) example_config 2000 False populated_cache))
     = Some 3
   \<and> raw_version (fst (refresh_cache (answering 500) example_config 2000 False populated_cache))
     = Some ''1.16.1+3''"
proof -
  have h1: "False \<or> \<not> (2000::real) < expires_at populated_cache
            \<or> \<not> truthy (version populated_cache)"
    by (simp add: populated_cache_def)
  have f: "fst (fetch_pubspec_from_github (answering 500) example_config populated_cache)
             = Inl (GitHubApiError 500 [])"
    by (simp add: fetch_pubspec_from_github_def answering_def example_config_def
          populated_cache_def Let_def)
  then have h2: "fst (fetch_pubspec_from_github (answering 500) example_config populated_cache)
                   = Inl (GitHubApiError 500 [])
         \<or> (\<exists>new_etag pubspec_text.
               fst (fetch_pubspec_from_github (answering 500) example_config populated_cache)
                 = Inr (Changed new_etag pubspec_text)
               \<and> parse_pubspec (answering 500) pubspec_text = Inl (GitHubApiError 500 []))"
    by simp
  have m: "str_exn (GitHubApiError 500 []) = ''GitHub API error: 500 - ''" by code_simp
  have t: "int_of_float 2000 = 2000" by (simp add: int_of_float_def)
  from refresh_failure_keeps_version [OF h1 h2] m t show ?thesis
    by (simp add: populated_cache_def example_config_def)
qed

text \<open>
  C5: whenever \<open>force\<close> is false, the time is before \<open>expires_at\<close> and a version is
  cached, the refresh returns the cache as it is and sends no request; so a refresh
  followed by a second one at such a time send at most one request together.
\<close>

theorem refresh_cache_hit:
  "(\<not> force \<and> now < expires_at c \<and> truthy (version c)
      \<longrightarrow> refresh_cache rt cfg now force c = (c, []))
   \<and> (refresh_cache rt1 cfg t1 False c0 = (c1, sent1) \<and> t2 < expires_at c1 \<and> truthy (version c1)
      \<longrightarrow> refresh_cache rt2 cfg t2 False c1 = (c1, [])
          \<and> length (sent1 @ snd (refresh_cache rt2 cfg t2 False c1)) \<le> 1)"
proof -
  have hit: "refresh_cache r cfg t f k = (k, [])"
    if "\<not> f" "t < expires_at k" "truthy (version k)" for r t f k
    using that by (simp add: refresh_cache_def)
  have one: "length sent1 \<le> 1" if "refresh_cache rt1 cfg t1 False c0 = (c1, sent1)"
    using refresh_sent_le [of rt1 cfg t1 False c0] that by simp
  have second: "refresh_cache rt2 cfg t2 False c1 = (c1, [])"
    if "t2 < expires_at c1" "truthy (version c1)"
    using that by (simp add: hit)
  show ?thesis
  proof (intro conjI impI)
    assume "\<not> force \<and> now < expires_at c \<and> truthy (version c)"
    then show "refresh_cache rt cfg now force c = (c, [])" by (simp add: hit)
  next
    assume a: "refresh_cache rt1 cfg t1 False c0 = (c1, sent1) \<and> t2 < expires_at c1
               \<and> truthy (version c1)"
    then show "refresh_cache rt2 cfg t2 False c1 = (c1, [])" by (simp add: second)
  next
    assume a: "refresh_cache rt1 cfg t1 False c0 = (c1, sent1) \<and> t2 < expires_at c1
               \<and> truthy (version c1)"
    then have "refresh_cache rt2 cfg t2 False c1 = (c1, [])" by (simp add: second)
    moreover have "length sent1 \<le> 1" using a one by simp
    ultimately show "length (sent1 @ snd (refresh_cache rt2 cfg t2 False c1)) \<le> 1" by simp
  qed
qed

theorem refresh_cache_hit_witness:
  "refresh_cache (serving ''1.16.1+3'') example_config 1000 False initial_cache
     = (populated_cache\<lparr>etag := Some ''W/2''\<rparr>, [github_request example_config initial_cache])
   \<and> refresh_cache (answering 500) example_config 1030 False (populated_cache\<lparr>etag := Some ''W/2''\<rparr>)
     = (populated_cache\<lparr>etag := Some ''W/2''\<rparr>, [])"
proof -
  let ?c1 = "populated_cache\<lparr>etag := Some ''W/2''\<rparr>"
  have p: "parse_pubspec (serving ''1.16.1+3'') ''version: 1.16.1+3''
             = Inr (''1.16.1'', Some 3, ''1.16.1+3'')"
    by code_simp
  have t: "int_of_float 1000 = 1000" by (simp add: int_of_float_def)
  have first: "refresh_cache (serving ''1.16.1+3'') example_config 1000 False initial_cache
                 = (?c1, [github_request example_config initial_cache])"
    using p t
    by (simp add: refresh_cache_def fetch_pubspec_from_github_def serving_def example_config_def
          initial_cache_def populated_cache_def Let_def)
  have h: "(1030::real) < expires_at ?c1 \<and> truthy (version ?c1)"
    by (simp add: populated_cache_def)
  from refresh_cache_hit [of False 1030 ?c1 "answering 500" example_config
        "serving ''1.16.1+3''" 1000 initial_cache ?c1
        "[github_request example_config initial_cache]" 1030 "answering 500"]
    first h
  show ?thesis by simp
qed

text \<open>
  C6: when a refresh reaches the fetch, the upstream answers 304 and a version is
  cached, the refresh sets the source to \<open>github(etag-cache)\<close>, \<open>last_checked_at\<close> to the
  time of the call and \<open>expires_at\<close> to that time plus the time-to-live, clears the
  error, and leaves version, build, raw version and etag as they were.
\<close>

theorem refresh_unchanged:
  assumes "force \<or> \<not> now < expires_at c"
    and "GITHUB_OWNER cfg \<noteq> [] \<and> GITHUB_REPO cfg \<noteq> [] \<and> GITHUB_PUBSPEC_PATH cfg \<noteq> []"
    and "requests_get rt (github_request cfg c) = Inr r"
    and "status_code r = 304"
    and "truthy (version c)"
  shows "refresh_cache rt cfg now force c =
           (c\<lparr>source := Some ''github(etag-cache)'',
              last_checked_at := Some (int_of_float now),
              expires_at := now + real_of_int (CACHE_TTL_SECONDS cfg),
              error := None\<rparr>, [github_request cfg c])
         \<and> version (fst (refresh_cache rt cfg now force c)) = version c
         \<and> build (fst (refresh_cache rt cfg now force c)) = build c
         \<and> raw_version (fst (refresh_cache rt cfg now force c)) = raw_version c
         \<and> etag (fst (refresh_cache rt cfg now force c)) = etag c"
  using assms
  by (auto simp: refresh_cache_def fetch_pubspec_from_github_def Let_def)

theorem refresh_unchanged_witness:
  "refresh_cache (answering 304) example_config 2000 False
     (populated_cache\<lparr>error := Some ''GitHub API error: 500 - ''\<rparr>)
   = (populated_cache\<lparr>source := Some ''github(etag-cache)'', last_checked_at := Some 2000,
                      expires_at := 2060\<rparr>,
      [github_request example_config populated_cache])"
proof -
  let ?c = "populated_cache\<lparr>error := Some ''GitHub API error: 500 - ''\<rparr>"
  let ?r = "\<lparr>status_code = 304, resp_text = [], resp_json = Inl ''Expecting value'',
             resp_etag = None\<rparr>"
  have h1: "False \<or> \<not> (2000::real) < expires_at ?c" by (simp add: populated_cache_def)
  have h2: "GITHUB_OWNER example_config \<noteq> [] \<and> GITHUB_REPO example_config \<noteq> []
            \<and> GITHUB_PUBSPEC_PATH example_config \<noteq> []"
    by (simp add: example_config_def)
  have h3: "requests_get (answering 304) (github_request example_config ?c) = Inr ?r"
    by (simp add: answering_def)
  have h4: "status_code ?r = 304" by simp
  have h5: "truthy (version ?c)" by (simp add: populated_cache_def)
  have t: "int_of_float 2000 = 2000" by (simp add: int_of_float_def)
  have g: "github_request example_config ?c = github_request example_config populated_cache"
    by (simp add: github_request_def)
  from refresh_unchanged [OF h1 h2 h3 h4 h5] t g show ?thesis
    by (simp add: populated_cache_def example_config_def)
qed

section \<open>The handler of \<open>/version\<close>\<close>




text \<open>Before any fetch has succeeded, with the upstream failing, the answer is 502.\<close>

lemma version_route_cold_start:
  "version_route (answering 500) example_config 2000 None initial_cache =
     ((JObj [(''ok'', JBool False),
             (''error'', JStr ''GitHub API error: 500 - ''),
             (''last_checked_at'', JInt 2000)], 502),
      initial_cache\<lparr>error := Some ''GitHub API error: 500 - '', last_checked_at := Some 2000,
                     expires_at := 2030\<rparr>,
      [github_request example_config initial_cache])"
proof -
  have m: "str_exn (GitHubApiError 500 []) = ''GitHub API error: 500 - ''" by code_simp
  have t: "int_of_float 2000 = 2000" by (simp add: int_of_float_def)
  show ?thesis
    using m t
    by (simp add: version_route_def refresh_cache_def fetch_pubspec_from_github_def
          record_failure_def error_or_unknown_def answering_def example_config_def
          initial_cache_def Let_def)
qed

text \<open>
  The handler tests the \<open>version\<close> entry, not the raw version: a manifest version
  that starts with \<open>+\<close> is fetched without error, stores the empty string as
  version, and is answered with 502.
\<close>

lemma version_route_empty_version:
  "version_route (serving ''+5'') example_config 1000 None initial_cache =
     ((JObj [(''ok'', JBool False),
             (''error'', JStr ''unknown''),
             (''last_checked_at'', JInt 1000)], 502),
      \<lparr>expires_at = 1060, version = Some [], build = Some 5, raw_version = Some ''+5'',
       source = Some ''github'', etag = Some ''W/2'', last_checked_at = Some 1000,
       error = None\<rparr>,
      [github_request example_config initial_cache])"
proof -
  have p: "parse_pubspec (serving ''+5'') ''version: +5'' = Inr ([], Some 5, ''+5'')"
    by code_simp
  have t: "int_of_float 1000 = 1000" by (simp add: int_of_float_def)
  show ?thesis
    using p t
    by (simp add: version_route_def refresh_cache_def fetch_pubspec_from_github_def
          error_or_unknown_def serving_def example_config_def initial_cache_def Let_def)
qed

section \<open>Invalid versions in \<open>/check\<close>\<close>

text \<open>
  C1, as the specification states it, fails in its second half: \<open>_parse_pubspec\<close>
  stores the upstream string \<open>1.2\<close> without an error, and \<open>/check\<close> then answers the
  caller, whose own version \<open>1.0.0\<close> is well formed, with 400; the error entry of the
  cache stays empty.
\<close>

theorem check_invalid_latest_counterexample:
  "check_route (serving ''1.2'') example_config 1000 (Some ''1.0.0'') initial_cache =
     ((JObj [(''ok'', JBool False),
             (''error'', JStr ''Invalid version format: 1.2. Expected e.g. 1.16.1+3'')], 400),
      \<lparr>expires_at = 1060, version = Some ''1.2'', build = None, raw_version = Some ''1.2'',
       source = Some ''github'', etag = Some ''W/2'', last_checked_at = Some 1000,
       error = None\<rparr>,
      [github_request example_config initial_cache])
   \<and> parse_version ''1.0.0'' = Inr (1, 0, 0, 0)"
proof -
  have p: "parse_pubspec (serving ''1.2'') ''version: 1.2'' = Inr (''1.2'', None, ''1.2'')"
    by code_simp
  have t: "int_of_float 1000 = 1000" by (simp add: int_of_float_def)
  have s: "strip ''1.0.0'' = ''1.0.0''" by code_simp
  have c: "parse_version ''1.0.0'' = Inr (1, 0, 0, 0)" by code_simp
  have l: "parse_version ''1.2'' = Inl (InvalidVersionFormat ''1.2'')" by code_simp
  have r: "refresh_cache (serving ''1.2'') example_config 1000 False initial_cache =
             (\<lparr>expires_at = 1060, version = Some ''1.2'', build = None, raw_version = Some ''1.2'',
               source = Some ''github'', etag = Some ''W/2'', last_checked_at = Some 1000,
               error = None\<rparr>,
              [github_request example_config initial_cache])"
    using p t
    by (simp add: refresh_cache_def fetch_pubspec_from_github_def serving_def example_config_def
          initial_cache_def Let_def)
  show ?thesis
    using s c l r by (simp add: check_route_def)
qed

text \<open>
  C1, amended: once \<open>/check\<close> has a non-empty \<open>current\<close> and a cached latest raw
  version, a failure of \<open>parse_version\<close> on the caller's string is answered with 400
  and its message, and so is a failure on the cached latest string; the handler
  returns the cache exactly as the refresh left it, so the failure on the cached
  string is not recorded in the error entry of the cache.
\<close>

theorem check_invalid_version_400:
  assumes "strip a \<noteq> []"
    and "refresh_cache rt cfg now False c = (c', sent)"
    and "raw_version c' = Some latest_raw"
    and "latest_raw \<noteq> []"
    and "parse_version (strip a) = Inl e
         \<or> (\<exists>cur. parse_version (strip a) = Inr cur \<and> parse_version latest_raw = Inl e)"
  shows "check_route rt cfg now (Some a) c =
           ((JObj [(''ok'', JBool False), (''error'', JStr (str_value_error e))], 400), c', sent)"
  using assms by (auto simp: check_route_def)

theorem check_invalid_version_400_witness:
  "check_route (answering 500) example_config 1000 (Some ''1.0.0'')
     (populated_cache\<lparr>raw_version := Some ''1.2''\<rparr>) =
     ((JObj [(''ok'', JBool False),
             (''error'', JStr ''Invalid version format: 1.2. Expected e.g. 1.16.1+3'')], 400),
      populated_cache\<lparr>raw_version := Some ''1.2''\<rparr>, [])
   \<and> error (populated_cache\<lparr>raw_version := Some ''1.2''\<rparr>) = None"
proof -
  let ?c = "populated_cache\<lparr>raw_version := Some ''1.2''\<rparr>"
  have s: "strip ''1.0.0'' = ''1.0.0''" by code_simp
  have h1: "strip ''1.0.0'' \<noteq> []" using s by simp
  have h2: "refresh_cache (answering 500) example_config 1000 False ?c = (?c, [])"
    by (simp add: refresh_cache_def populated_cache_def)
  have h3: "raw_version ?c = Some ''1.2''" by simp
  have h4: "''1.2'' \<noteq> []" by simp
  have c: "parse_version (strip ''1.0.0'') = Inr (1, 0, 0, 0)" by code_simp
  have l: "parse_version ''1.2'' = Inl (InvalidVersionFormat ''1.2'')" by code_simp
  have h5: "parse_version (strip ''1.0.0'') = Inl (InvalidVersionFormat ''1.2'')
            \<or> (\<exists>cur. parse_version (strip ''1.0.0'') = Inr cur
                  \<and> parse_version ''1.2'' = Inl (InvalidVersionFormat ''1.2''))"
    using c l by simp
  from check_invalid_version_400 [OF h1 h2 h3 h4 h5] show ?thesis
    by (simp add: populated_cache_def)
qed

section \<open>The two parsers of the build tag\<close>









end
